theory Spec2Isabelle
  imports Main
begin

section \<open>The native layer seen from spotify/track.py\<close>

text \<open>
  \<^verbatim>\<open>spotify/track.py\<close> wraps libspotify's \<^verbatim>\<open>sp_track\<close> resources. Every effect of the
  module is a call into \<^verbatim>\<open>lib\<close> (the native library reached through cffi), so the model
  threads a world through every operation: the module global
  \<^verbatim>\<open>spotify.session_instance\<close>, what the native layer answers, the reference counts of
  the native tracks, the destructors registered with \<^verbatim>\<open>ffi.gc\<close>, and the trace of native
  calls made so far.

  Native pointers are addresses; \<^verbatim>\<open>ffi.NULL\<close> is address 0, and a pointer is falsy in
  Python exactly when it is \<^verbatim>\<open>NULL\<close>.
\<close>

type_synonym sp_track = nat
type_synonym sp_album = nat
type_synonym sp_session = nat

definition ffi_NULL :: nat where
  "ffi_NULL = 0"

text \<open>A \<^verbatim>\<open>char *\<close>: \<^verbatim>\<open>NULL\<close>, or a character array holding the given bytes.\<close>

datatype char_ptr = CNULL | CharArray string

text \<open>The session object held in \<^verbatim>\<open>spotify.session_instance\<close>: only its native handle is used.\<close>

datatype Session = Session (sp_session: sp_session)

text \<open>One entry of the trace per call of a \<^verbatim>\<open>lib\<close> function, with its arguments.\<close>

datatype native_call =
    sp_track_add_ref sp_track
  | sp_track_release sp_track
  | sp_track_is_loaded sp_track
  | sp_track_error sp_track
  | sp_track_offline_get_status sp_track
  | sp_track_get_availability sp_session sp_track
  | sp_track_is_local sp_session sp_track
  | sp_track_is_autolinked sp_session sp_track
  | sp_track_get_playable sp_session sp_track
  | sp_track_is_placeholder sp_track
  | sp_track_is_starred sp_session sp_track
  | sp_track_album sp_track
  | sp_track_name sp_track
  | sp_track_duration sp_track
  | sp_track_popularity sp_track
  | sp_track_disc sp_track
  | sp_track_index sp_track
  | sp_localtrack_create char_ptr char_ptr char_ptr int

text \<open>
  What the native layer answers to each read. The module never interprets these values
  beyond what the accessors below do, so they are arbitrary functions of the arguments.
\<close>

record native =
  track_is_loaded :: "sp_track \<Rightarrow> int"
  track_error :: "sp_track \<Rightarrow> int"
  track_offline_status :: "sp_track \<Rightarrow> int"
  track_availability :: "sp_session \<Rightarrow> sp_track \<Rightarrow> int"
  track_is_local :: "sp_session \<Rightarrow> sp_track \<Rightarrow> int"
  track_is_autolinked :: "sp_session \<Rightarrow> sp_track \<Rightarrow> int"
  track_playable :: "sp_session \<Rightarrow> sp_track \<Rightarrow> sp_track"
  track_is_placeholder :: "sp_track \<Rightarrow> int"
  track_is_starred :: "sp_session \<Rightarrow> sp_track \<Rightarrow> int"
  track_album :: "sp_track \<Rightarrow> sp_album"
  track_name :: "sp_track \<Rightarrow> char_ptr"
  track_duration :: "sp_track \<Rightarrow> int"
  track_popularity :: "sp_track \<Rightarrow> int"
  track_disc :: "sp_track \<Rightarrow> int"
  track_index :: "sp_track \<Rightarrow> int"
  localtrack_new :: "char_ptr \<Rightarrow> char_ptr \<Rightarrow> char_ptr \<Rightarrow> int \<Rightarrow> sp_track"

record world =
  session_instance :: "Session option"
  lib :: native
  refcount :: "sp_track \<Rightarrow> int"
  finalizers :: "(nat \<times> sp_track) list"
  next_id :: nat
  calls :: "native_call list"

definition call :: "world \<Rightarrow> native_call \<Rightarrow> world" where
  "call w c = w\<lparr>calls := calls w @ [c]\<rparr>"

text \<open>
  The two native calls that change a reference count. \<^verbatim>\<open>sp_track_add_ref\<close> adds one
  reference to the track and \<^verbatim>\<open>sp_track_release\<close> gives one back.
\<close>

definition lib_sp_track_add_ref :: "world \<Rightarrow> sp_track \<Rightarrow> world" where
  "lib_sp_track_add_ref w p =
     call (w\<lparr>refcount := (refcount w)(p := refcount w p + 1)\<rparr>) (sp_track_add_ref p)"

definition lib_sp_track_release :: "world \<Rightarrow> sp_track \<Rightarrow> world" where
  "lib_sp_track_release w p =
     call (w\<lparr>refcount := (refcount w)(p := refcount w p - 1)\<rparr>) (sp_track_release p)"

text \<open>
  \<^verbatim>\<open>lib.sp_localtrack_create\<close> hands its caller one owned reference to the track it
  returns (libspotify is not part of the repository; the spec's words are "the creation
  call already vends one owned reference").
\<close>

definition lib_sp_localtrack_create ::
  "world \<Rightarrow> char_ptr \<Rightarrow> char_ptr \<Rightarrow> char_ptr \<Rightarrow> int \<Rightarrow> sp_track \<times> world" where
  "lib_sp_localtrack_create w artist title album len =
     (let p = localtrack_new (lib w) artist title album len
      in (p, call (w\<lparr>refcount := (refcount w)(p := refcount w p + 1)\<rparr>)
                  (sp_localtrack_create artist title album len)))"

text \<open>
  \<^verbatim>\<open>ffi.gc(cdata, destructor)\<close> returns a new cdata object for the same pointer and
  registers the destructor, to be run once when that new object is collected. The new
  object gets a fresh identity.
\<close>

definition ffi_gc :: "world \<Rightarrow> sp_track \<Rightarrow> nat \<times> world" where
  "ffi_gc w p =
     (let i = next_id w
      in (i, w\<lparr>finalizers := (i, p) # finalizers w, next_id := i + 1\<rparr>))"

section \<open>Errors and enumerations\<close>

text \<open>
  \<^verbatim>\<open>ErrorType\<close>, \<^verbatim>\<open>TrackAvailability\<close> and \<^verbatim>\<open>TrackOfflineStatus\<close> are integer
  enumerations generated by \<^verbatim>\<open>make_enum\<close> from the native constants: a member carries
  the native integer. The native functions return values of the C enumerations these are
  generated from, so looking a native result up yields the member with that integer.
\<close>

datatype ErrorType = ErrorType int
datatype TrackAvailability = TrackAvailability int
datatype TrackOfflineStatus = TrackOfflineStatus int

text \<open>
  Modelled from the spec: the member \<^verbatim>\<open>ErrorType.OK\<close>, which is missing from src/ (the
  enumeration is generated from libspotify's \<^verbatim>\<open>SP_ERROR_\<close> constants, where
  \<^verbatim>\<open>SP_ERROR_OK\<close> is 0). The spec: "a distinguished OK value means no error".
\<close>

definition OK :: ErrorType where
  "OK = ErrorType 0"

text \<open>The exceptions an operation of the module can end with.\<close>

datatype exn =
    RuntimeError string
  | Error ErrorType
  | OverflowError
  | Foreign string

text \<open>
  Modelled from the spec: \<^verbatim>\<open>Error.maybe_raise\<close>, which is missing from src/ (it lives in
  \<^verbatim>\<open>spotify/__init__.py\<close>). The spec: "Call error(); if it signals a non-OK code, fail
  by raising/propagating that error (do not silently return absence)", the raised error
  being "a typed error carrying the native code".
\<close>

definition maybe_raise :: "ErrorType \<Rightarrow> exn + unit" where
  "maybe_raise error_type = (if error_type \<noteq> OK then Inl (Error error_type) else Inr ())"

section \<open>Track\<close>

text \<open>
  A wrapper object. \<^verbatim>\<open>self.sp_track\<close> is the cdata object made by \<^verbatim>\<open>ffi.gc\<close>: the
  pointer, and the identity under which the release destructor is registered. The wrapper
  is the only holder of that object, so the identity stands for the wrapper too.
\<close>

record Track =
  track_id :: nat
  sp_track :: sp_track

text \<open>
  \<^verbatim>\<open>
  def __init__(self, sp_track, add_ref=True):
      if add_ref:
          lib.sp_track_add_ref(sp_track)
      self.sp_track = ffi.gc(sp_track, lib.sp_track_release)
  \<close>
\<close>

definition Track_init :: "world \<Rightarrow> sp_track \<Rightarrow> bool \<Rightarrow> Track \<times> world" where
  "Track_init w p add_ref =
     (let w1 = (if add_ref then lib_sp_track_add_ref w p else w);
          (i, w2) = ffi_gc w1 p
      in (\<lparr>track_id = i, sp_track = p\<rparr>, w2))"

text \<open>
  End of life of a wrapper: its cdata object is collected, and cffi runs the destructor
  registered for it, if it is still registered, and forgets the registration.
\<close>

definition Track_del :: "world \<Rightarrow> Track \<Rightarrow> world" where
  "Track_del w self =
     (case map_of (finalizers w) (track_id self) of
        None \<Rightarrow> w
      | Some p \<Rightarrow>
          lib_sp_track_release
            (w\<lparr>finalizers := filter (\<lambda>(i, q). i \<noteq> track_id self) (finalizers w)\<rparr>) p)"

text \<open>
  \<^verbatim>\<open>
  @property
  def is_loaded(self):
      return bool(lib.sp_track_is_loaded(self.sp_track))

  @property
  def error(self):
      return ErrorType(lib.sp_track_error(self.sp_track))
  \<close>
\<close>

definition is_loaded :: "world \<Rightarrow> Track \<Rightarrow> bool \<times> world" where
  "is_loaded w self =
     (track_is_loaded (lib w) (sp_track self) \<noteq> 0, call w (sp_track_is_loaded (sp_track self)))"

definition error :: "world \<Rightarrow> Track \<Rightarrow> ErrorType \<times> world" where
  "error w self =
     (ErrorType (track_error (lib w) (sp_track self)), call w (sp_track_error (sp_track self)))"

text \<open>
  \<^verbatim>\<open>
  @property
  def offline_status(self):
      Error.maybe_raise(self.error)
      return TrackOfflineStatus(
          lib.sp_track_offline_get_status(self.sp_track))
  \<close>
\<close>

definition offline_status :: "world \<Rightarrow> Track \<Rightarrow> (exn + TrackOfflineStatus) \<times> world" where
  "offline_status w self =
     (let (e, w1) = error w self
      in case maybe_raise e of
           Inl x \<Rightarrow> (Inl x, w1)
         | Inr _ \<Rightarrow>
             (Inr (TrackOfflineStatus (track_offline_status (lib w1) (sp_track self))),
              call w1 (sp_track_offline_get_status (sp_track self))))"

text \<open>
  \<^verbatim>\<open>
  @property
  def availability(self):
      if spotify.session_instance is None:
          raise RuntimeError('Session must be initialized')
      Error.maybe_raise(self.error)
      return TrackAvailability(lib.sp_track_get_availability(
          spotify.session_instance.sp_session, self.sp_track))
  \<close>
\<close>

definition availability :: "world \<Rightarrow> Track \<Rightarrow> (exn + TrackAvailability) \<times> world" where
  "availability w self =
     (case session_instance w of
        None \<Rightarrow> (Inl (RuntimeError ''Session must be initialized''), w)
      | Some s \<Rightarrow>
          (let (e, w1) = error w self
           in case maybe_raise e of
                Inl x \<Rightarrow> (Inl x, w1)
              | Inr _ \<Rightarrow>
                  (Inr (TrackAvailability
                          (track_availability (lib w1) (sp_session s) (sp_track self))),
                   call w1 (sp_track_get_availability (sp_session s) (sp_track self)))))"

text \<open>
  \<^verbatim>\<open>
  @property
  def is_local(self):
      if spotify.session_instance is None:
          raise RuntimeError('Session must be initialized')
      Error.maybe_raise(self.error)
      if not self.is_loaded:
          return None
      return bool(lib.sp_track_is_local(
          spotify.session_instance.sp_session, self.sp_track))
  \<close>
  \<^verbatim>\<open>is_autolinked\<close> and \<^verbatim>\<open>is_starred\<close> have the same body around
  \<^verbatim>\<open>lib.sp_track_is_autolinked\<close> and \<^verbatim>\<open>lib.sp_track_is_starred\<close>.
\<close>

definition is_local :: "world \<Rightarrow> Track \<Rightarrow> (exn + bool option) \<times> world" where
  "is_local w self =
     (case session_instance w of
        None \<Rightarrow> (Inl (RuntimeError ''Session must be initialized''), w)
      | Some s \<Rightarrow>
          (let (e, w1) = error w self
           in case maybe_raise e of
                Inl x \<Rightarrow> (Inl x, w1)
              | Inr _ \<Rightarrow>
                  (let (loaded, w2) = is_loaded w1 self
                   in if \<not> loaded then (Inr None, w2)
                      else (Inr (Some (track_is_local (lib w2) (sp_session s) (sp_track self) \<noteq> 0)),
                            call w2 (sp_track_is_local (sp_session s) (sp_track self))))))"

definition is_autolinked :: "world \<Rightarrow> Track \<Rightarrow> (exn + bool option) \<times> world" where
  "is_autolinked w self =
     (case session_instance w of
        None \<Rightarrow> (Inl (RuntimeError ''Session must be initialized''), w)
      | Some s \<Rightarrow>
          (let (e, w1) = error w self
           in case maybe_raise e of
                Inl x \<Rightarrow> (Inl x, w1)
              | Inr _ \<Rightarrow>
                  (let (loaded, w2) = is_loaded w1 self
                   in if \<not> loaded then (Inr None, w2)
                      else (Inr (Some (track_is_autolinked (lib w2) (sp_session s) (sp_track self) \<noteq> 0)),
                            call w2 (sp_track_is_autolinked (sp_session s) (sp_track self))))))"

text \<open>
  \<^verbatim>\<open>
  @property
  def playable(self):
      if spotify.session_instance is None:
          raise RuntimeError('Session must be initialized')
      Error.maybe_raise(self.error)
      return Track(lib.sp_track_get_playable(
          spotify.session_instance.sp_session, self.sp_track))
  \<close>
  \<^verbatim>\<open>Track(...)\<close> with one argument is \<^verbatim>\<open>Track.__init__\<close> with \<^verbatim>\<open>add_ref=True\<close>.
\<close>

definition playable :: "world \<Rightarrow> Track \<Rightarrow> (exn + Track) \<times> world" where
  "playable w self =
     (case session_instance w of
        None \<Rightarrow> (Inl (RuntimeError ''Session must be initialized''), w)
      | Some s \<Rightarrow>
          (let (e, w1) = error w self
           in case maybe_raise e of
                Inl x \<Rightarrow> (Inl x, w1)
              | Inr _ \<Rightarrow>
                  (let p = track_playable (lib w1) (sp_session s) (sp_track self);
                       w2 = call w1 (sp_track_get_playable (sp_session s) (sp_track self));
                       (t, w3) = Track_init w2 p True
                   in (Inr t, w3))))"

text \<open>
  \<^verbatim>\<open>
  @property
  def is_placeholder(self):
      Error.maybe_raise(self.error)
      return bool(lib.sp_track_is_placeholder(self.sp_track))
  \<close>
\<close>

definition is_placeholder :: "world \<Rightarrow> Track \<Rightarrow> (exn + bool) \<times> world" where
  "is_placeholder w self =
     (let (e, w1) = error w self
      in case maybe_raise e of
           Inl x \<Rightarrow> (Inl x, w1)
         | Inr _ \<Rightarrow>
             (Inr (track_is_placeholder (lib w1) (sp_track self) \<noteq> 0),
              call w1 (sp_track_is_placeholder (sp_track self))))"

definition is_starred :: "world \<Rightarrow> Track \<Rightarrow> (exn + bool option) \<times> world" where
  "is_starred w self =
     (case session_instance w of
        None \<Rightarrow> (Inl (RuntimeError ''Session must be initialized''), w)
      | Some s \<Rightarrow>
          (let (e, w1) = error w self
           in case maybe_raise e of
                Inl x \<Rightarrow> (Inl x, w1)
              | Inr _ \<Rightarrow>
                  (let (loaded, w2) = is_loaded w1 self
                   in if \<not> loaded then (Inr None, w2)
                      else (Inr (Some (track_is_starred (lib w2) (sp_session s) (sp_track self) \<noteq> 0)),
                            call w2 (sp_track_is_starred (sp_session s) (sp_track self))))))"

text \<open>
  \<^verbatim>\<open>
  @property
  def album(self):
      Error.maybe_raise(self.error)
      sp_album = lib.sp_track_album(self.sp_track)
      return Album(sp_album) if sp_album else None
  \<close>
  The class \<^verbatim>\<open>Album\<close> is imported from the package and is not part of this module: its
  constructor is the parameter \<open>Album\<close>, which may touch the world and may raise.
\<close>

definition album ::
  "(world \<Rightarrow> sp_album \<Rightarrow> (exn + 'album) \<times> world) \<Rightarrow> world \<Rightarrow> Track \<Rightarrow> (exn + 'album option) \<times> world" where
  "album Album w self =
     (let (e, w1) = error w self
      in case maybe_raise e of
           Inl x \<Rightarrow> (Inl x, w1)
         | Inr _ \<Rightarrow>
             (let sp_album = track_album (lib w1) (sp_track self);
                  w2 = call w1 (sp_track_album (sp_track self))
              in if sp_album \<noteq> ffi_NULL
                 then (case Album w2 sp_album of
                         (Inl x, w3) \<Rightarrow> (Inl x, w3)
                       | (Inr a, w3) \<Rightarrow> (Inr (Some a), w3))
                 else (Inr None, w2)))"

text \<open>
  \<^verbatim>\<open>
  @property
  def name(self):
      Error.maybe_raise(self.error)
      name = to_unicode(lib.sp_track_name(self.sp_track))
      return name if name else None
  \<close>
  \<^verbatim>\<open>to_unicode\<close> is imported from \<^verbatim>\<open>spotify.utils\<close> and is not part of this module: it
  is the parameter \<open>to_unicode\<close>, which decodes a native string or raises.
\<close>

definition name ::
  "(char_ptr \<Rightarrow> exn + string) \<Rightarrow> world \<Rightarrow> Track \<Rightarrow> (exn + string option) \<times> world" where
  "name to_unicode w self =
     (let (e, w1) = error w self
      in case maybe_raise e of
           Inl x \<Rightarrow> (Inl x, w1)
         | Inr _ \<Rightarrow>
             (let w2 = call w1 (sp_track_name (sp_track self))
              in case to_unicode (track_name (lib w1) (sp_track self)) of
                   Inl x \<Rightarrow> (Inl x, w2)
                 | Inr name \<Rightarrow> (Inr (if name \<noteq> [] then Some name else None), w2)))"

text \<open>
  \<^verbatim>\<open>
  @property
  def duration(self):
      Error.maybe_raise(self.error)
      duration = lib.sp_track_duration(self.sp_track)
      return duration if duration else None
  \<close>
  \<^verbatim>\<open>disc\<close> and \<^verbatim>\<open>index\<close> have the same body around \<^verbatim>\<open>lib.sp_track_disc\<close> and
  \<^verbatim>\<open>lib.sp_track_index\<close>.
\<close>

definition duration :: "world \<Rightarrow> Track \<Rightarrow> (exn + int option) \<times> world" where
  "duration w self =
     (let (e, w1) = error w self
      in case maybe_raise e of
           Inl x \<Rightarrow> (Inl x, w1)
         | Inr _ \<Rightarrow>
             (let duration = track_duration (lib w1) (sp_track self)
              in (Inr (if duration \<noteq> 0 then Some duration else None),
                  call w1 (sp_track_duration (sp_track self)))))"

text \<open>
  \<^verbatim>\<open>
  @property
  def popularity(self):
      """The track's popularity in the range 0-100, 0 if undefined.

      Will always return :class:`None` if the track isn't loaded.
      """
      Error.maybe_raise(self.error)
      if not self.is_loaded:
          return None
      return lib.sp_track_popularity(self.sp_track)
  \<close>
\<close>

definition popularity :: "world \<Rightarrow> Track \<Rightarrow> (exn + int option) \<times> world" where
  "popularity w self =
     (let (e, w1) = error w self
      in case maybe_raise e of
           Inl x \<Rightarrow> (Inl x, w1)
         | Inr _ \<Rightarrow>
             (let (loaded, w2) = is_loaded w1 self
              in if \<not> loaded then (Inr None, w2)
                 else (Inr (Some (track_popularity (lib w2) (sp_track self))),
                       call w2 (sp_track_popularity (sp_track self)))))"

definition disc :: "world \<Rightarrow> Track \<Rightarrow> (exn + int option) \<times> world" where
  "disc w self =
     (let (e, w1) = error w self
      in case maybe_raise e of
           Inl x \<Rightarrow> (Inl x, w1)
         | Inr _ \<Rightarrow>
             (let disc = track_disc (lib w1) (sp_track self)
              in (Inr (if disc \<noteq> 0 then Some disc else None),
                  call w1 (sp_track_disc (sp_track self)))))"

definition index :: "world \<Rightarrow> Track \<Rightarrow> (exn + int option) \<times> world" where
  "index w self =
     (let (e, w1) = error w self
      in case maybe_raise e of
           Inl x \<Rightarrow> (Inl x, w1)
         | Inr _ \<Rightarrow>
             (let index = track_index (lib w1) (sp_track self)
              in (Inr (if index \<noteq> 0 then Some index else None),
                  call w1 (sp_track_index (sp_track self)))))"

section \<open>LocalTrack\<close>

text \<open>
  \<^verbatim>\<open>
  def __init__(self, artist=None, title=None, album=None, length=None):
      convert = lambda value: ffi.NULL if value is None else ffi.new(
          'char[]', to_bytes(value))

      artist = convert(artist)
      title = convert(title)
      album = convert(album)
      if length is None:
          length = -1

      sp_track = lib.sp_localtrack_create(artist, title, album, length)

      super(LocalTrack, self).__init__(sp_track, add_ref=False)
  \<close>
  \<^verbatim>\<open>to_bytes\<close> is imported from \<^verbatim>\<open>spotify.utils\<close> and is not part of this module: it
  is the parameter \<open>to_bytes\<close>, which encodes a value or raises. \<^verbatim>\<open>ffi.new\<close> allocates a
  character array holding the bytes. The native \<^verbatim>\<open>length\<close> parameter is a C \<^verbatim>\<open>int\<close>:
  cffi refuses a Python integer outside its 32 bits with \<^verbatim>\<open>OverflowError\<close>, before the
  native function runs. (The parameter \<^verbatim>\<open>album\<close> is written \<open>album_name\<close>, since
  \<open>album\<close> is the accessor above.)
\<close>

definition convert :: "('v \<Rightarrow> exn + string) \<Rightarrow> 'v option \<Rightarrow> exn + char_ptr" where
  "convert to_bytes v =
     (case v of
        None \<Rightarrow> Inr CNULL
      | Some x \<Rightarrow> (case to_bytes x of Inl e \<Rightarrow> Inl e | Inr b \<Rightarrow> Inr (CharArray b)))"

definition LocalTrack_init ::
  "('v \<Rightarrow> exn + string) \<Rightarrow> world \<Rightarrow> 'v option \<Rightarrow> 'v option \<Rightarrow> 'v option \<Rightarrow> int option
     \<Rightarrow> (exn + Track) \<times> world" where
  "LocalTrack_init to_bytes w artist title album_name len =
     (case convert to_bytes artist of
        Inl e \<Rightarrow> (Inl e, w)
      | Inr artist' \<Rightarrow>
     (case convert to_bytes title of
        Inl e \<Rightarrow> (Inl e, w)
      | Inr title' \<Rightarrow>
     (case convert to_bytes album_name of
        Inl e \<Rightarrow> (Inl e, w)
      | Inr album' \<Rightarrow>
          (let len' = (case len of None \<Rightarrow> - 1 | Some n \<Rightarrow> n)
           in if len' < - (2 ^ 31) \<or> 2 ^ 31 \<le> len' then (Inl OverflowError, w)
              else (let (p, w1) = lib_sp_localtrack_create w artist' title' album' len';
                        (t, w2) = Track_init w1 p False
                    in (Inr t, w2))))))"

section \<open>Wrappers and their registrations\<close>

text \<open>
  A wrapper is alive in a world when the destructor of its cdata object is still
  registered there. In a well-formed world every registered identity was handed out by
  \<open>ffi_gc\<close> (it is below \<open>next_id\<close>) and is registered once.
\<close>

definition alive :: "world \<Rightarrow> Track \<Rightarrow> bool" where
  "alive w t = ((track_id t, sp_track t) \<in> set (finalizers w))"

definition wf_world :: "world \<Rightarrow> bool" where
  "wf_world w =
     (list_all (\<lambda>(i, p). i < next_id w) (finalizers w) \<and> distinct (map fst (finalizers w)))"

text \<open>The releases among the native calls made so far.\<close>

fun is_release :: "native_call \<Rightarrow> bool" where
  "is_release (sp_track_release p) = True"
| "is_release c = False"

definition releases :: "world \<Rightarrow> native_call list" where
  "releases w = filter is_release (calls w)"

text \<open>
  Two worlds hold the same references: the same registered destructors, the same reference
  counts and the same releases made so far.
\<close>

definition same_references :: "world \<Rightarrow> world \<Rightarrow> bool" where
  "same_references w w' =
     (finalizers w' = finalizers w \<and> next_id w' = next_id w
      \<and> refcount w' = refcount w \<and> releases w' = releases w)"

text \<open>
  The world after each accessor of \<^verbatim>\<open>Track\<close> that constructs no wrapper (all but
  \<^verbatim>\<open>playable\<close> and \<^verbatim>\<open>album\<close>).
\<close>

definition read_accessors ::
  "(char_ptr \<Rightarrow> exn + string) \<Rightarrow> (world \<Rightarrow> Track \<Rightarrow> world) list" where
  "read_accessors to_unicode =
     [\<lambda>w t. snd (is_loaded w t),
      \<lambda>w t. snd (error w t),
      \<lambda>w t. snd (offline_status w t),
      \<lambda>w t. snd (availability w t),
      \<lambda>w t. snd (is_local w t),
      \<lambda>w t. snd (is_autolinked w t),
      \<lambda>w t. snd (is_placeholder w t),
      \<lambda>w t. snd (is_starred w t),
      \<lambda>w t. snd (name to_unicode w t),
      \<lambda>w t. snd (duration w t),
      \<lambda>w t. snd (popularity w t),
      \<lambda>w t. snd (disc w t),
      \<lambda>w t. snd (index w t)]"

section \<open>A test double\<close>

text \<open>
  A native layer with four tracks: track 7 is loaded (210000 ms, disc 1, index 3, named
  "Song", on album 40, popularity 0, autolinked to track 8), track 8 is loaded with
  popularity 64 and otherwise reads as empty, track 5 is not loaded yet and reads as empty,
  and track 9 failed to load with native error 3. The world has a session and one wrapper
  for each of the four tracks.
\<close>

definition demo_lib :: native where
  "demo_lib =
     \<lparr>track_is_loaded = (\<lambda>p. if p = 7 \<or> p = 8 then 1 else 0),
      track_error = (\<lambda>p. if p = 9 then 3 else 0),
      track_offline_status = (\<lambda>p. 2),
      track_availability = (\<lambda>s p. 1),
      track_is_local = (\<lambda>s p. 0),
      track_is_autolinked = (\<lambda>s p. if p = 7 then 1 else 0),
      track_playable = (\<lambda>s p. if p = 7 then 8 else p),
      track_is_placeholder = (\<lambda>p. 0),
      track_is_starred = (\<lambda>s p. if p = 7 then 1 else 0),
      track_album = (\<lambda>p. if p = 7 then 40 else 0),
      track_name = (\<lambda>p. if p = 7 then CharArray ''Song'' else CharArray []),
      track_duration = (\<lambda>p. if p = 7 then 210000 else 0),
      track_popularity = (\<lambda>p. if p = 8 then 64 else 0),
      track_disc = (\<lambda>p. if p = 7 then 1 else 0),
      track_index = (\<lambda>p. if p = 7 then 3 else 0),
      localtrack_new = (\<lambda>artist title album len. 11)\<rparr>"

definition demo_world :: world where
  "demo_world =
     \<lparr>session_instance = Some (Session 1),
      lib = demo_lib,
      refcount = (\<lambda>p. 1),
      finalizers = [(3, 8), (2, 9), (1, 5), (0, 7)],
      next_id = 4,
      calls = []\<rparr>"

definition demo_world_no_session :: world where
  "demo_world_no_session = demo_world\<lparr>session_instance := None\<rparr>"

definition loaded_track :: Track where
  "loaded_track = \<lparr>track_id = 0, sp_track = 7\<rparr>"

definition unloaded_track :: Track where
  "unloaded_track = \<lparr>track_id = 1, sp_track = 5\<rparr>"

definition failed_track :: Track where
  "failed_track = \<lparr>track_id = 2, sp_track = 9\<rparr>"

definition popular_track :: Track where
  "popular_track = \<lparr>track_id = 3, sp_track = 8\<rparr>"

text \<open>Stand-ins for the collaborators that are parameters of the model.\<close>

definition demo_to_unicode :: "char_ptr \<Rightarrow> exn + string" where
  "demo_to_unicode c =
     (case c of CNULL \<Rightarrow> Inl (Foreign ''NULL'') | CharArray b \<Rightarrow> Inr b)"

definition demo_to_bytes :: "string \<Rightarrow> exn + string" where
  "demo_to_bytes v = Inr v"

definition demo_Album :: "world \<Rightarrow> sp_album \<Rightarrow> (exn + sp_album) \<times> world" where
  "demo_Album w a = (Inr a, w)"

section \<open>Basic facts\<close>

lemmas gate_defs = error_def maybe_raise_def OK_def is_loaded_def call_def

lemmas demo_defs =
  demo_world_def demo_world_no_session_def demo_lib_def
  loaded_track_def unloaded_track_def failed_track_def popular_track_def

lemma Track_init_True:
  "Track_init w p True =
     (\<lparr>track_id = next_id w, sp_track = p\<rparr>,
      w\<lparr>refcount := (refcount w)(p := refcount w p + 1),
        calls := calls w @ [sp_track_add_ref p],
        finalizers := (next_id w, p) # finalizers w,
        next_id := next_id w + 1\<rparr>)"
  by (simp add: Track_init_def ffi_gc_def lib_sp_track_add_ref_def call_def Let_def)

lemma Track_init_False:
  "Track_init w p False =
     (\<lparr>track_id = next_id w, sp_track = p\<rparr>,
      w\<lparr>finalizers := (next_id w, p) # finalizers w, next_id := next_id w + 1\<rparr>)"
  by (simp add: Track_init_def ffi_gc_def Let_def)

lemma fresh_id: "wf_world w \<Longrightarrow> map_of (finalizers w) (next_id w) = None"
  by (auto simp: wf_world_def list_all_iff map_of_eq_None_iff)

lemma alive_lt: "wf_world w \<Longrightarrow> alive w t \<Longrightarrow> track_id t < next_id w"
  by (auto simp: wf_world_def alive_def list_all_iff)

lemma alive_map_of:
  "wf_world w \<Longrightarrow> alive w t \<Longrightarrow> map_of (finalizers w) (track_id t) = Some (sp_track t)"
  by (auto simp: wf_world_def alive_def)

lemma map_of_filter_out: "map_of (filter (\<lambda>(j, q). j \<noteq> i) xs) i = None"
  by (induction xs) auto

lemma wf_world_register:
  assumes "wf_world w"
    and "finalizers w' = (next_id w, p) # finalizers w" and "next_id w' = next_id w + 1"
  shows "wf_world w'"
  using assms by (fastforce simp: wf_world_def list_all_iff)

lemma wf_world_unregister:
  assumes "wf_world w"
    and "finalizers w' = filter (\<lambda>(j, q). j \<noteq> i) (finalizers w)" and "next_id w' = next_id w"
  shows "wf_world w'"
  using assms by (auto simp: wf_world_def list_all_iff distinct_map_filter)

lemma Track_del_unregistered:
  "map_of (finalizers w) (track_id t) = None \<Longrightarrow> Track_del w t = w"
  by (simp add: Track_del_def)

lemma Track_del_registered:
  "map_of (finalizers w) (track_id t) = Some p \<Longrightarrow>
   Track_del w t =
     w\<lparr>finalizers := filter (\<lambda>(i, q). i \<noteq> track_id t) (finalizers w),
       refcount := (refcount w)(p := refcount w p - 1),
       calls := calls w @ [sp_track_release p]\<rparr>"
  by (simp add: Track_del_def lib_sp_track_release_def call_def)

section \<open>The session gate\<close>

text \<open>
  C2. With no active session (\<^verbatim>\<open>spotify.session_instance is None\<close>), each of
  \<^verbatim>\<open>availability\<close>, \<^verbatim>\<open>is_local\<close>, \<^verbatim>\<open>is_autolinked\<close>, \<^verbatim>\<open>playable\<close> and
  \<^verbatim>\<open>is_starred\<close> raises \<^verbatim>\<open>RuntimeError('Session must be initialized')\<close>, whatever the
  track's load state and error state are. The world comes back unchanged: the error check
  (which calls \<^verbatim>\<open>lib.sp_track_error\<close>) has not run, and no native call was made.
\<close>

theorem session_gated_accessors_liveness_fault:
  assumes "session_instance w = None"
  shows "availability w t = (Inl (RuntimeError ''Session must be initialized''), w)
       \<and> is_local w t = (Inl (RuntimeError ''Session must be initialized''), w)
       \<and> is_autolinked w t = (Inl (RuntimeError ''Session must be initialized''), w)
       \<and> playable w t = (Inl (RuntimeError ''Session must be initialized''), w)
       \<and> is_starred w t = (Inl (RuntimeError ''Session must be initialized''), w)"
  using assms
  by (simp add: availability_def is_local_def is_autolinked_def playable_def is_starred_def)

theorem session_gated_accessors_liveness_fault_witness:
  "session_instance demo_world_no_session = None
   \<and> track_error (lib demo_world_no_session) (sp_track failed_track) = 3
   \<and> availability demo_world_no_session failed_track =
       (Inl (RuntimeError ''Session must be initialized''), demo_world_no_session)
   \<and> is_local demo_world_no_session failed_track =
       (Inl (RuntimeError ''Session must be initialized''), demo_world_no_session)
   \<and> is_autolinked demo_world_no_session failed_track =
       (Inl (RuntimeError ''Session must be initialized''), demo_world_no_session)
   \<and> playable demo_world_no_session failed_track =
       (Inl (RuntimeError ''Session must be initialized''), demo_world_no_session)
   \<and> is_starred demo_world_no_session failed_track =
       (Inl (RuntimeError ''Session must be initialized''), demo_world_no_session)
   \<and> calls demo_world_no_session = []"
proof -
  have h: "session_instance demo_world_no_session = None"
    by (simp add: demo_defs)
  show ?thesis
    using h session_gated_accessors_liveness_fault [OF h, of failed_track]
    by (simp add: demo_defs)
qed

text \<open>
  C3, as the spec states it: \<^verbatim>\<open>offline_status\<close> with no active session raises the
  liveness fault and does not reach the native read. The code differs: with no session,
  on the loaded track of the test double, \<^verbatim>\<open>offline_status\<close> returns the native status
  and has made the native read.
\<close>

theorem offline_status_no_session_counterexample:
  "session_instance demo_world_no_session = None
   \<and> fst (offline_status demo_world_no_session loaded_track) = Inr (TrackOfflineStatus 2)
   \<and> fst (offline_status demo_world_no_session loaded_track)
       \<noteq> Inl (RuntimeError ''Session must be initialized'')
   \<and> calls (snd (offline_status demo_world_no_session loaded_track)) =
       [sp_track_error 7, sp_track_offline_get_status 7]"
  by (simp add: offline_status_def gate_defs demo_defs)

text \<open>
  C3, amended: \<^verbatim>\<open>offline_status\<close> makes no session check. Whether or not a session is
  active, it raises the native error when \<^verbatim>\<open>error\<close> is not OK (after the one call of
  \<^verbatim>\<open>lib.sp_track_error\<close>), and otherwise proceeds to the native read
  \<^verbatim>\<open>lib.sp_track_offline_get_status\<close>, which takes no session, and returns its
  \<^verbatim>\<open>TrackOfflineStatus\<close>. It never raises the liveness fault.
\<close>

theorem offline_status_ignores_session:
  "offline_status w t =
     (if track_error (lib w) (sp_track t) \<noteq> 0
      then (Inl (Error (ErrorType (track_error (lib w) (sp_track t)))),
            call w (sp_track_error (sp_track t)))
      else (Inr (TrackOfflineStatus (track_offline_status (lib w) (sp_track t))),
            call (call w (sp_track_error (sp_track t)))
                 (sp_track_offline_get_status (sp_track t))))
   \<and> fst (offline_status w t) \<noteq> Inl (RuntimeError ''Session must be initialized'')
   \<and> offline_status (w\<lparr>session_instance := None\<rparr>) t =
       (fst (offline_status w t), (snd (offline_status w t))\<lparr>session_instance := None\<rparr>)"
  by (simp add: offline_status_def gate_defs)

theorem offline_status_ignores_session_witness:
  "offline_status demo_world_no_session unloaded_track =
     (Inr (TrackOfflineStatus 2),
      call (call demo_world_no_session (sp_track_error 5)) (sp_track_offline_get_status 5))
   \<and> offline_status demo_world_no_session failed_track =
     (Inl (Error (ErrorType 3)), call demo_world_no_session (sp_track_error 9))"
  using offline_status_ignores_session [of demo_world_no_session unloaded_track]
        offline_status_ignores_session [of demo_world_no_session failed_track]
  by (simp add: demo_defs)

section \<open>The error gate\<close>

text \<open>
  C4. When the native error code \<open>c\<close> of the track is not OK, every accessor behind
  \<^verbatim>\<open>Error.maybe_raise(self.error)\<close> raises \<^verbatim>\<open>Error\<close> carrying \<^verbatim>\<open>ErrorType(c)\<close>, and
  the only native call it has made is the \<^verbatim>\<open>lib.sp_track_error\<close> of the check itself:
  no native field was read. This holds for \<^verbatim>\<open>offline_status\<close>, \<^verbatim>\<open>is_placeholder\<close>,
  \<^verbatim>\<open>album\<close>, \<^verbatim>\<open>name\<close>, \<^verbatim>\<open>duration\<close>, \<^verbatim>\<open>popularity\<close>, \<^verbatim>\<open>disc\<close>, \<^verbatim>\<open>index\<close> in every
  world, and for \<^verbatim>\<open>availability\<close>, \<^verbatim>\<open>is_local\<close>, \<^verbatim>\<open>is_autolinked\<close>, \<^verbatim>\<open>playable\<close>,
  \<^verbatim>\<open>is_starred\<close> when a session is active. \<^verbatim>\<open>is_loaded\<close> and \<^verbatim>\<open>error\<close> cannot raise
  and still report the load state and the code.
\<close>

theorem error_gated_accessors_raise:
  assumes "track_error (lib w) (sp_track t) = c" and "c \<noteq> 0"
  shows "offline_status w t = (Inl (Error (ErrorType c)), call w (sp_track_error (sp_track t)))
       \<and> is_placeholder w t = (Inl (Error (ErrorType c)), call w (sp_track_error (sp_track t)))
       \<and> album Album w t = (Inl (Error (ErrorType c)), call w (sp_track_error (sp_track t)))
       \<and> name to_unicode w t = (Inl (Error (ErrorType c)), call w (sp_track_error (sp_track t)))
       \<and> duration w t = (Inl (Error (ErrorType c)), call w (sp_track_error (sp_track t)))
       \<and> popularity w t = (Inl (Error (ErrorType c)), call w (sp_track_error (sp_track t)))
       \<and> disc w t = (Inl (Error (ErrorType c)), call w (sp_track_error (sp_track t)))
       \<and> index w t = (Inl (Error (ErrorType c)), call w (sp_track_error (sp_track t)))
       \<and> (session_instance w \<noteq> None \<longrightarrow>
            availability w t = (Inl (Error (ErrorType c)), call w (sp_track_error (sp_track t)))
          \<and> is_local w t = (Inl (Error (ErrorType c)), call w (sp_track_error (sp_track t)))
          \<and> is_autolinked w t = (Inl (Error (ErrorType c)), call w (sp_track_error (sp_track t)))
          \<and> playable w t = (Inl (Error (ErrorType c)), call w (sp_track_error (sp_track t)))
          \<and> is_starred w t = (Inl (Error (ErrorType c)), call w (sp_track_error (sp_track t))))
       \<and> is_loaded w t =
           (track_is_loaded (lib w) (sp_track t) \<noteq> 0, call w (sp_track_is_loaded (sp_track t)))
       \<and> error w t = (ErrorType c, call w (sp_track_error (sp_track t)))
       \<and> ErrorType c \<noteq> OK"
proof -
  have ungated:
    "offline_status w t = (Inl (Error (ErrorType c)), call w (sp_track_error (sp_track t)))"
    "is_placeholder w t = (Inl (Error (ErrorType c)), call w (sp_track_error (sp_track t)))"
    "album Album w t = (Inl (Error (ErrorType c)), call w (sp_track_error (sp_track t)))"
    "name to_unicode w t = (Inl (Error (ErrorType c)), call w (sp_track_error (sp_track t)))"
    "duration w t = (Inl (Error (ErrorType c)), call w (sp_track_error (sp_track t)))"
    "popularity w t = (Inl (Error (ErrorType c)), call w (sp_track_error (sp_track t)))"
    "disc w t = (Inl (Error (ErrorType c)), call w (sp_track_error (sp_track t)))"
    "index w t = (Inl (Error (ErrorType c)), call w (sp_track_error (sp_track t)))"
    using assms
    by (simp_all add: offline_status_def is_placeholder_def album_def name_def duration_def
        popularity_def disc_def index_def gate_defs)
  have gated:
    "availability w t = (Inl (Error (ErrorType c)), call w (sp_track_error (sp_track t)))"
    "is_local w t = (Inl (Error (ErrorType c)), call w (sp_track_error (sp_track t)))"
    "is_autolinked w t = (Inl (Error (ErrorType c)), call w (sp_track_error (sp_track t)))"
    "playable w t = (Inl (Error (ErrorType c)), call w (sp_track_error (sp_track t)))"
    "is_starred w t = (Inl (Error (ErrorType c)), call w (sp_track_error (sp_track t)))"
    if "session_instance w \<noteq> None"
    using assms that
    by (auto simp: availability_def is_local_def is_autolinked_def playable_def is_starred_def
        gate_defs)
  have plain:
    "is_loaded w t =
       (track_is_loaded (lib w) (sp_track t) \<noteq> 0, call w (sp_track_is_loaded (sp_track t)))"
    "error w t = (ErrorType c, call w (sp_track_error (sp_track t)))"
    "ErrorType c \<noteq> OK"
    using assms by (simp_all add: gate_defs)
  from ungated gated plain show ?thesis by blast
qed

theorem error_gated_accessors_raise_witness:
  "track_error (lib demo_world) (sp_track failed_track) = 3
   \<and> session_instance demo_world \<noteq> None
   \<and> fst (name demo_to_unicode demo_world failed_track) = Inl (Error (ErrorType 3))
   \<and> fst (album demo_Album demo_world failed_track) = Inl (Error (ErrorType 3))
   \<and> fst (duration demo_world failed_track) = Inl (Error (ErrorType 3))
   \<and> fst (is_starred demo_world failed_track) = Inl (Error (ErrorType 3))
   \<and> calls (snd (duration demo_world failed_track)) = [sp_track_error 9]
   \<and> calls (snd (playable demo_world failed_track)) = [sp_track_error 9]
   \<and> fst (is_loaded demo_world failed_track) = False
   \<and> fst (error demo_world failed_track) = ErrorType 3"
proof -
  have h1: "track_error (lib demo_world) (sp_track failed_track) = 3"
    by (simp add: demo_defs)
  have h2: "(3::int) \<noteq> 0"
    by simp
  have h3: "session_instance demo_world \<noteq> None"
    by (simp add: demo_defs)
  show ?thesis
    using h1 h3
      error_gated_accessors_raise [OF h1 h2, of demo_Album demo_to_unicode]
    by (simp add: call_def demo_defs)
qed

section \<open>Unloaded tracks\<close>

text \<open>
  C5. For a track that is not loaded, with a session active and error OK, each of
  \<^verbatim>\<open>is_local\<close>, \<^verbatim>\<open>is_autolinked\<close> and \<^verbatim>\<open>is_starred\<close> returns \<^verbatim>\<open>None\<close>, not
  \<^verbatim>\<open>False\<close>: the result is the absence value, and the native flag is not read (the
  calls made are the error check and the load check only).
\<close>

theorem unloaded_flags_are_None:
  assumes "session_instance w \<noteq> None"
    and "track_error (lib w) (sp_track t) = 0"
    and "track_is_loaded (lib w) (sp_track t) = 0"
  shows "is_local w t =
           (Inr None, call (call w (sp_track_error (sp_track t))) (sp_track_is_loaded (sp_track t)))
       \<and> is_autolinked w t =
           (Inr None, call (call w (sp_track_error (sp_track t))) (sp_track_is_loaded (sp_track t)))
       \<and> is_starred w t =
           (Inr None, call (call w (sp_track_error (sp_track t))) (sp_track_is_loaded (sp_track t)))
       \<and> fst (is_local w t) \<noteq> Inr (Some False)
       \<and> fst (is_autolinked w t) \<noteq> Inr (Some False)
       \<and> fst (is_starred w t) \<noteq> Inr (Some False)"
  using assms by (auto simp: is_local_def is_autolinked_def is_starred_def gate_defs)

theorem unloaded_flags_are_None_witness:
  "session_instance demo_world \<noteq> None
   \<and> fst (is_loaded demo_world unloaded_track) = False
   \<and> fst (error demo_world unloaded_track) = OK
   \<and> fst (is_local demo_world unloaded_track) = Inr None
   \<and> fst (is_autolinked demo_world unloaded_track) = Inr None
   \<and> fst (is_starred demo_world unloaded_track) = Inr None
   \<and> calls (snd (is_starred demo_world unloaded_track)) =
       [sp_track_error 5, sp_track_is_loaded 5]"
proof -
  have h1: "session_instance demo_world \<noteq> None"
    by (simp add: demo_defs)
  have h2: "track_error (lib demo_world) (sp_track unloaded_track) = 0"
    by (simp add: demo_defs)
  have h3: "track_is_loaded (lib demo_world) (sp_track unloaded_track) = 0"
    by (simp add: demo_defs)
  show ?thesis
    using h1 unloaded_flags_are_None [OF h1 h2 h3]
    by (simp add: gate_defs demo_defs)
qed

section \<open>Field reads\<close>

text \<open>
  C6. With error OK, \<^verbatim>\<open>duration\<close>, \<^verbatim>\<open>disc\<close> and \<^verbatim>\<open>index\<close> return \<^verbatim>\<open>None\<close> exactly
  when the native integer is zero and that integer otherwise; \<^verbatim>\<open>name\<close> returns
  \<^verbatim>\<open>None\<close> exactly when the string decoded by \<^verbatim>\<open>to_unicode\<close> is empty and the decoded
  string otherwise; \<^verbatim>\<open>album\<close> returns \<^verbatim>\<open>None\<close> without constructing anything when the
  native album pointer is \<^verbatim>\<open>NULL\<close>, and otherwise what the \<^verbatim>\<open>Album\<close> constructor makes
  of that pointer. None of the five looks at \<^verbatim>\<open>is_loaded\<close>: a zero or empty native
  value reads as absence whether it means "unset" or not.
\<close>

theorem zero_and_empty_reads_are_None:
  assumes "track_error (lib w) (sp_track t) = 0"
  shows "duration w t =
           (Inr (if track_duration (lib w) (sp_track t) = 0 then None
                 else Some (track_duration (lib w) (sp_track t))),
            call (call w (sp_track_error (sp_track t))) (sp_track_duration (sp_track t)))
       \<and> disc w t =
           (Inr (if track_disc (lib w) (sp_track t) = 0 then None
                 else Some (track_disc (lib w) (sp_track t))),
            call (call w (sp_track_error (sp_track t))) (sp_track_disc (sp_track t)))
       \<and> index w t =
           (Inr (if track_index (lib w) (sp_track t) = 0 then None
                 else Some (track_index (lib w) (sp_track t))),
            call (call w (sp_track_error (sp_track t))) (sp_track_index (sp_track t)))
       \<and> (to_unicode (track_name (lib w) (sp_track t)) = Inr s \<longrightarrow>
            name to_unicode w t =
              (Inr (if s = [] then None else Some s),
               call (call w (sp_track_error (sp_track t))) (sp_track_name (sp_track t))))
       \<and> (track_album (lib w) (sp_track t) = ffi_NULL \<longrightarrow>
            album Album w t =
              (Inr None,
               call (call w (sp_track_error (sp_track t))) (sp_track_album (sp_track t))))
       \<and> (track_album (lib w) (sp_track t) \<noteq> ffi_NULL \<longrightarrow>
            album Album w t =
              (case Album (call (call w (sp_track_error (sp_track t)))
                                (sp_track_album (sp_track t)))
                          (track_album (lib w) (sp_track t)) of
                 (Inl x, w3) \<Rightarrow> (Inl x, w3)
               | (Inr a, w3) \<Rightarrow> (Inr (Some a), w3)))"
proof -
  have ints:
    "duration w t =
       (Inr (if track_duration (lib w) (sp_track t) = 0 then None
             else Some (track_duration (lib w) (sp_track t))),
        call (call w (sp_track_error (sp_track t))) (sp_track_duration (sp_track t)))"
    "disc w t =
       (Inr (if track_disc (lib w) (sp_track t) = 0 then None
             else Some (track_disc (lib w) (sp_track t))),
        call (call w (sp_track_error (sp_track t))) (sp_track_disc (sp_track t)))"
    "index w t =
       (Inr (if track_index (lib w) (sp_track t) = 0 then None
             else Some (track_index (lib w) (sp_track t))),
        call (call w (sp_track_error (sp_track t))) (sp_track_index (sp_track t)))"
    using assms by (simp_all add: duration_def disc_def index_def gate_defs)
  have nm:
    "name to_unicode w t =
       (Inr (if s = [] then None else Some s),
        call (call w (sp_track_error (sp_track t))) (sp_track_name (sp_track t)))"
    if "to_unicode (track_name (lib w) (sp_track t)) = Inr s"
    using assms that by (simp add: name_def gate_defs)
  have al_null:
    "album Album w t =
       (Inr None, call (call w (sp_track_error (sp_track t))) (sp_track_album (sp_track t)))"
    if "track_album (lib w) (sp_track t) = ffi_NULL"
    using assms that by (simp add: album_def gate_defs)
  have al_ptr:
    "album Album w t =
       (case Album (call (call w (sp_track_error (sp_track t))) (sp_track_album (sp_track t)))
                   (track_album (lib w) (sp_track t)) of
          (Inl x, w3) \<Rightarrow> (Inl x, w3)
        | (Inr a, w3) \<Rightarrow> (Inr (Some a), w3))"
    if "track_album (lib w) (sp_track t) \<noteq> ffi_NULL"
    using assms that by (simp add: album_def gate_defs)
  from ints nm al_null al_ptr show ?thesis by blast
qed

theorem zero_and_empty_reads_are_None_witness:
  "fst (error demo_world loaded_track) = OK
   \<and> fst (duration demo_world loaded_track) = Inr (Some 210000)
   \<and> fst (disc demo_world loaded_track) = Inr (Some 1)
   \<and> fst (index demo_world loaded_track) = Inr (Some 3)
   \<and> fst (name demo_to_unicode demo_world loaded_track) = Inr (Some ''Song'')
   \<and> fst (album demo_Album demo_world loaded_track) = Inr (Some 40)
   \<and> fst (duration demo_world popular_track) = Inr None
   \<and> fst (disc demo_world popular_track) = Inr None
   \<and> fst (index demo_world popular_track) = Inr None
   \<and> fst (name demo_to_unicode demo_world popular_track) = Inr None
   \<and> fst (album demo_Album demo_world popular_track) = Inr None
   \<and> fst (is_loaded demo_world popular_track) = True"
proof -
  have h1: "track_error (lib demo_world) (sp_track loaded_track) = 0"
    by (simp add: demo_defs)
  have h2: "track_error (lib demo_world) (sp_track popular_track) = 0"
    by (simp add: demo_defs)
  have n1: "demo_to_unicode (track_name (lib demo_world) (sp_track loaded_track)) = Inr ''Song''"
    by (simp add: demo_defs demo_to_unicode_def)
  have n2: "demo_to_unicode (track_name (lib demo_world) (sp_track popular_track)) = Inr []"
    by (simp add: demo_defs demo_to_unicode_def)
  have a1: "track_album (lib demo_world) (sp_track loaded_track) \<noteq> ffi_NULL"
    by (simp add: demo_defs ffi_NULL_def)
  have a2: "track_album (lib demo_world) (sp_track popular_track) = ffi_NULL"
    by (simp add: demo_defs ffi_NULL_def)
  show ?thesis
    using n1 n2 a1 a2
      zero_and_empty_reads_are_None [OF h1, of demo_to_unicode "''Song''" demo_Album]
      zero_and_empty_reads_are_None [OF h2, of demo_to_unicode "[]" demo_Album]
    by (simp add: gate_defs demo_defs demo_Album_def)
qed

text \<open>
  C7, as the spec states it: \<^verbatim>\<open>popularity\<close> returns absence when the native popularity
  reads as zero. The code differs: on the loaded track of the test double, whose native
  popularity is 0, \<^verbatim>\<open>popularity\<close> returns 0, not \<^verbatim>\<open>None\<close>.
\<close>

theorem popularity_zero_counterexample:
  "fst (error demo_world loaded_track) = OK
   \<and> fst (is_loaded demo_world loaded_track) = True
   \<and> track_popularity (lib demo_world) (sp_track loaded_track) = 0
   \<and> fst (popularity demo_world loaded_track) = Inr (Some 0)
   \<and> fst (popularity demo_world loaded_track) \<noteq> Inr None"
  by (simp add: popularity_def gate_defs demo_defs)

text \<open>
  C7, amended: with error OK, \<^verbatim>\<open>popularity\<close> returns \<^verbatim>\<open>None\<close> whenever the track is not
  loaded (without reading the native popularity), and when the track is loaded it returns
  the native popularity as it is, zero included (the docstring: "0 if undefined"). So the
  result is in the range 0-100 whenever the native value is.
\<close>

theorem popularity_None_only_when_unloaded:
  assumes "track_error (lib w) (sp_track t) = 0"
  shows "popularity w t =
           (if track_is_loaded (lib w) (sp_track t) = 0
            then (Inr None,
                  call (call w (sp_track_error (sp_track t))) (sp_track_is_loaded (sp_track t)))
            else (Inr (Some (track_popularity (lib w) (sp_track t))),
                  call (call (call w (sp_track_error (sp_track t)))
                             (sp_track_is_loaded (sp_track t)))
                       (sp_track_popularity (sp_track t))))
       \<and> (track_is_loaded (lib w) (sp_track t) \<noteq> 0
            \<and> 0 \<le> track_popularity (lib w) (sp_track t)
            \<and> track_popularity (lib w) (sp_track t) \<le> 100 \<longrightarrow>
          (\<exists>v. fst (popularity w t) = Inr (Some v) \<and> 0 \<le> v \<and> v \<le> 100))"
  using assms by (simp add: popularity_def gate_defs)

theorem popularity_None_only_when_unloaded_witness:
  "fst (popularity demo_world unloaded_track) = Inr None
   \<and> calls (snd (popularity demo_world unloaded_track)) =
       [sp_track_error 5, sp_track_is_loaded 5]
   \<and> fst (popularity demo_world popular_track) = Inr (Some 64)
   \<and> fst (popularity demo_world loaded_track) = Inr (Some 0)"
proof -
  have h1: "track_error (lib demo_world) (sp_track unloaded_track) = 0"
    by (simp add: demo_defs)
  have h2: "track_error (lib demo_world) (sp_track popular_track) = 0"
    by (simp add: demo_defs)
  have h3: "track_error (lib demo_world) (sp_track loaded_track) = 0"
    by (simp add: demo_defs)
  show ?thesis
    using popularity_None_only_when_unloaded [OF h1]
      popularity_None_only_when_unloaded [OF h2]
      popularity_None_only_when_unloaded [OF h3]
    by (simp add: call_def demo_defs)
qed

text \<open>
  C10. \<^verbatim>\<open>is_placeholder\<close> is gated on the error check only. It makes no session test, so
  it never raises the liveness fault and gives the same result with and without a
  session; it raises the native error when \<^verbatim>\<open>error\<close> is not OK; otherwise it reads
  \<^verbatim>\<open>lib.sp_track_is_placeholder\<close> and returns its truth value, without looking at
  \<^verbatim>\<open>is_loaded\<close>. Its result is a \<^verbatim>\<open>bool\<close>: there is no \<^verbatim>\<open>None\<close> among its values.
\<close>

theorem is_placeholder_error_gate_only:
  "is_placeholder w t =
     (if track_error (lib w) (sp_track t) \<noteq> 0
      then (Inl (Error (ErrorType (track_error (lib w) (sp_track t)))),
            call w (sp_track_error (sp_track t)))
      else (Inr (track_is_placeholder (lib w) (sp_track t) \<noteq> 0),
            call (call w (sp_track_error (sp_track t)))
                 (sp_track_is_placeholder (sp_track t))))
   \<and> fst (is_placeholder w t) \<noteq> Inl (RuntimeError ''Session must be initialized'')
   \<and> is_placeholder (w\<lparr>session_instance := None\<rparr>) t =
       (fst (is_placeholder w t), (snd (is_placeholder w t))\<lparr>session_instance := None\<rparr>)"
  by (simp add: is_placeholder_def gate_defs)

theorem is_placeholder_error_gate_only_witness:
  "fst (is_loaded demo_world_no_session unloaded_track) = False
   \<and> is_placeholder demo_world_no_session unloaded_track =
       (Inr False,
        call (call demo_world_no_session (sp_track_error 5)) (sp_track_is_placeholder 5))
   \<and> is_placeholder demo_world_no_session failed_track =
       (Inl (Error (ErrorType 3)), call demo_world_no_session (sp_track_error 9))"
  using is_placeholder_error_gate_only [of demo_world_no_session unloaded_track]
        is_placeholder_error_gate_only [of demo_world_no_session failed_track]
  by (simp add: gate_defs demo_defs)

section \<open>Reference counting\<close>

lemma same_references_refl: "same_references w w"
  by (simp add: same_references_def)

lemma same_references_call:
  "\<not> is_release c \<Longrightarrow> same_references w w' \<Longrightarrow> same_references w (call w' c)"
  by (simp add: same_references_def releases_def call_def)

lemma same_references_alive:
  "same_references w w' \<Longrightarrow> alive w t \<Longrightarrow> alive w' t"
  by (simp add: same_references_def alive_def)

lemma same_references_wf:
  "same_references w w' \<Longrightarrow> wf_world w \<Longrightarrow> wf_world w'"
  by (simp add: same_references_def wf_world_def)

lemmas same_references_intros = same_references_refl same_references_call

lemma reads_keep_references:
  "same_references w (snd (is_loaded w t))"
  "same_references w (snd (error w t))"
  "same_references w (snd (offline_status w t))"
  "same_references w (snd (availability w t))"
  "same_references w (snd (is_local w t))"
  "same_references w (snd (is_autolinked w t))"
  "same_references w (snd (is_placeholder w t))"
  "same_references w (snd (is_starred w t))"
  "same_references w (snd (name to_unicode w t))"
  "same_references w (snd (duration w t))"
  "same_references w (snd (popularity w t))"
  "same_references w (snd (disc w t))"
  "same_references w (snd (index w t))"
  by (simp_all add: is_loaded_def error_def offline_status_def availability_def is_local_def
      is_autolinked_def is_placeholder_def is_starred_def name_def duration_def popularity_def
      disc_def index_def Let_def same_references_intros
      split: option.split sum.split prod.split)

lemma read_accessors_keep_references:
  "list_all (\<lambda>f. same_references w (f w t)) (read_accessors to_unicode)"
  by (simp add: read_accessors_def reads_keep_references)

lemma Track_init_keeps_alive:
  "alive w u \<Longrightarrow> alive (snd (Track_init w p add_ref)) u"
  by (cases add_ref) (simp_all add: Track_init_True Track_init_False alive_def)

lemma Track_init_releases_nothing:
  "releases (snd (Track_init w p add_ref)) = releases w"
  by (cases add_ref) (simp_all add: Track_init_True Track_init_False releases_def)

lemma Track_del_other_keeps_alive:
  assumes "alive w u" and "track_id t \<noteq> track_id u"
  shows "alive (Track_del w t) u"
proof (cases "map_of (finalizers w) (track_id t)")
  case None
  then show ?thesis
    using assms by (simp add: Track_del_unregistered)
next
  case (Some p)
  show ?thesis
    using assms by (subst Track_del_registered [OF Some]) (auto simp: alive_def)
qed

text \<open>
  C1. \<^verbatim>\<open>Track.__init__\<close> calls \<^verbatim>\<open>lib.sp_track_add_ref\<close> once when \<^verbatim>\<open>add_ref\<close> is
  true and not at all when it is false, and in both modes registers
  \<^verbatim>\<open>lib.sp_track_release\<close> once, with \<^verbatim>\<open>ffi.gc\<close>, for the new wrapper. So at
  construction the reference count of the resource goes up by exactly one
  (\<^verbatim>\<open>add_ref=True\<close>) or stays (\<^verbatim>\<open>add_ref=False\<close>), and no release is made. In any later
  world in which the wrapper is still alive, the accessors that construct no wrapper
  release nothing and leave the wrapper alive, and the wrapper's end of life makes exactly
  one \<^verbatim>\<open>lib.sp_track_release\<close> of its resource, taking the count down by exactly one;
  after it the wrapper is no longer registered, so a second finalisation changes nothing.

  End of life is \<open>Track_del\<close>: cffi running the destructor registered by \<^verbatim>\<open>ffi.gc\<close>
  when the wrapper's cdata object is collected.
\<close>

theorem track_reference_lifetime:
  assumes wf: "wf_world w" and init: "Track_init w p add_ref = (t, w')"
    and wf'': "wf_world w''" and al'': "alive w'' t"
  shows "sp_track t = p
       \<and> refcount w' = (refcount w)(p := refcount w p + (if add_ref then 1 else 0))
       \<and> calls w' = calls w @ (if add_ref then [sp_track_add_ref p] else [])
       \<and> releases w' = releases w
       \<and> finalizers w' = (track_id t, p) # finalizers w
       \<and> map_of (finalizers w) (track_id t) = None
       \<and> wf_world w' \<and> alive w' t
       \<and> list_all (\<lambda>f. same_references w'' (f w'' t) \<and> alive (f w'' t) t)
            (read_accessors to_unicode)
       \<and> refcount (Track_del w'' t) = (refcount w'')(p := refcount w'' p - 1)
       \<and> calls (Track_del w'' t) = calls w'' @ [sp_track_release p]
       \<and> releases (Track_del w'' t) = releases w'' @ [sp_track_release p]
       \<and> \<not> alive (Track_del w'' t) t
       \<and> wf_world (Track_del w'' t)
       \<and> Track_del (Track_del w'' t) t = Track_del w'' t"
proof -
  have t: "t = \<lparr>track_id = next_id w, sp_track = p\<rparr>"
    using init by (cases add_ref) (simp_all add: Track_init_True Track_init_False)
  then have pt: "sp_track t = p"
    by simp
  have fin: "finalizers w' = (next_id w, p) # finalizers w"
    using init by (cases add_ref) (auto simp: Track_init_True Track_init_False)
  have nid: "next_id w' = next_id w + 1"
    using init by (cases add_ref) (auto simp: Track_init_True Track_init_False)
  have rc: "refcount w' = (refcount w)(p := refcount w p + (if add_ref then 1 else 0))"
    using init by (cases add_ref) (auto simp: Track_init_True Track_init_False)
  have cs: "calls w' = calls w @ (if add_ref then [sp_track_add_ref p] else [])"
    using init by (cases add_ref) (auto simp: Track_init_True Track_init_False)
  have rl: "releases w' = releases w"
    using Track_init_releases_nothing [of w p add_ref] init by simp
  have fresh: "map_of (finalizers w) (next_id w) = None"
    using wf by (rule fresh_id)
  have wf': "wf_world w'"
    using wf fin nid by (rule wf_world_register)
  have al': "alive w' t"
    by (simp add: alive_def fin t)
  have reads: "list_all (\<lambda>f. same_references w'' (f w'' t) \<and> alive (f w'' t) t)
                 (read_accessors to_unicode)"
    using read_accessors_keep_references [of w'' t to_unicode] al''
    by (auto simp: list_all_iff intro: same_references_alive)
  have reg: "map_of (finalizers w'') (track_id t) = Some p"
    using alive_map_of [OF wf'' al''] pt by simp
  have del: "Track_del w'' t =
     w''\<lparr>finalizers := filter (\<lambda>(i, q). i \<noteq> track_id t) (finalizers w''),
         refcount := (refcount w'')(p := refcount w'' p - 1),
         calls := calls w'' @ [sp_track_release p]\<rparr>"
    using reg by (rule Track_del_registered)
  have fin_del: "finalizers (Track_del w'' t) =
                   filter (\<lambda>(i, q). i \<noteq> track_id t) (finalizers w'')"
    by (subst del) simp
  have nid_del: "next_id (Track_del w'' t) = next_id w''"
    by (subst del) simp
  have rc_del: "refcount (Track_del w'' t) = (refcount w'')(p := refcount w'' p - 1)"
    by (subst del) simp
  have cs_del: "calls (Track_del w'' t) = calls w'' @ [sp_track_release p]"
    by (subst del) simp
  have rl_del: "releases (Track_del w'' t) = releases w'' @ [sp_track_release p]"
    by (simp add: releases_def cs_del)
  have gone: "map_of (finalizers (Track_del w'' t)) (track_id t) = None"
    by (subst fin_del) (rule map_of_filter_out)
  then have twice: "Track_del (Track_del w'' t) t = Track_del w'' t"
    by (rule Track_del_unregistered)
  have dead: "\<not> alive (Track_del w'' t) t"
    using gone by (auto simp: alive_def map_of_eq_None_iff image_iff)
  have wf_del: "wf_world (Track_del w'' t)"
    using wf'' fin_del nid_del by (rule wf_world_unregister)
  have unreg: "map_of (finalizers w) (track_id t) = None"
    using fresh by (simp add: t)
  have fin': "finalizers w' = (track_id t, p) # finalizers w"
    using fin by (simp add: t)
  show ?thesis
    using pt rc cs rl fin' unreg wf' al' reads rc_del cs_del rl_del dead wf_del twice
    by blast
qed

theorem track_reference_lifetime_witness:
  "wf_world demo_world
   \<and> refcount demo_world 7 = 1
   \<and> refcount (snd (Track_init demo_world 7 True)) 7 = 2
   \<and> calls (snd (Track_init demo_world 7 True)) = [sp_track_add_ref 7]
   \<and> refcount (Track_del (snd (Track_init demo_world 7 True))
                 (fst (Track_init demo_world 7 True))) 7 = 1
   \<and> calls (Track_del (snd (Track_init demo_world 7 True))
              (fst (Track_init demo_world 7 True))) = [sp_track_add_ref 7, sp_track_release 7]
   \<and> refcount (snd (Track_init demo_world 7 False)) 7 = 1
   \<and> calls (snd (Track_init demo_world 7 False)) = []
   \<and> refcount (Track_del (snd (Track_init demo_world 7 False))
                 (fst (Track_init demo_world 7 False))) 7 = 0
   \<and> calls (Track_del (snd (Track_init demo_world 7 False))
              (fst (Track_init demo_world 7 False))) = [sp_track_release 7]
   \<and> Track_del (Track_del (snd (Track_init demo_world 7 False))
                  (fst (Track_init demo_world 7 False)))
                (fst (Track_init demo_world 7 False)) =
       Track_del (snd (Track_init demo_world 7 False)) (fst (Track_init demo_world 7 False))"
proof -
  have wf: "wf_world demo_world"
    by (simp add: wf_world_def demo_defs)
  have i1: "Track_init demo_world 7 True =
              (fst (Track_init demo_world 7 True), snd (Track_init demo_world 7 True))"
    by simp
  have i2: "Track_init demo_world 7 False =
              (fst (Track_init demo_world 7 False), snd (Track_init demo_world 7 False))"
    by simp
  have w1: "wf_world (snd (Track_init demo_world 7 True))"
    by (simp add: Track_init_True wf_world_def demo_defs)
  have w2: "wf_world (snd (Track_init demo_world 7 False))"
    by (simp add: Track_init_False wf_world_def demo_defs)
  have a1: "alive (snd (Track_init demo_world 7 True)) (fst (Track_init demo_world 7 True))"
    by (simp add: Track_init_True alive_def)
  have a2: "alive (snd (Track_init demo_world 7 False)) (fst (Track_init demo_world 7 False))"
    by (simp add: Track_init_False alive_def)
  have r: "refcount demo_world 7 = 1" "calls demo_world = []"
    by (simp_all add: demo_defs)
  show ?thesis
    using wf r
      track_reference_lifetime [OF wf i1 w1 a1, of demo_to_unicode]
      track_reference_lifetime [OF wf i2 w2 a2, of demo_to_unicode]
    by simp
qed

section \<open>Constructing wrappers\<close>

text \<open>
  C9. With a session active and error OK, \<^verbatim>\<open>playable\<close> asks the native layer, through
  the session, for the playable target of the track and returns
  \<^verbatim>\<open>Track(target)\<close>, that is \<^verbatim>\<open>Track.__init__\<close> with \<^verbatim>\<open>add_ref=True\<close>: the new
  wrapper holds a fresh reference (the target's count goes up by one, by the one
  \<^verbatim>\<open>lib.sp_track_add_ref\<close> in the trace) and has its own registration. It is a new
  object: for a wrapper \<open>self\<close> alive in a well-formed world its identity differs from
  that of \<open>self\<close>, also when the target is the track of \<open>self\<close> itself, and both
  wrappers are alive afterwards.
\<close>

theorem playable_returns_fresh_wrapper:
  assumes wf: "wf_world w" and al: "alive w self"
    and sess: "session_instance w = Some s"
    and ok: "track_error (lib w) (sp_track self) = 0"
  shows "\<exists>t w'. playable w self = (Inr t, w')
         \<and> Track_init
              (call (call w (sp_track_error (sp_track self)))
                    (sp_track_get_playable (sp_session s) (sp_track self)))
              (track_playable (lib w) (sp_session s) (sp_track self)) True = (t, w')
         \<and> sp_track t = track_playable (lib w) (sp_session s) (sp_track self)
         \<and> track_id t \<noteq> track_id self \<and> t \<noteq> self
         \<and> alive w' t \<and> alive w' self \<and> wf_world w'
         \<and> refcount w' =
             (refcount w)(sp_track t := refcount w (sp_track t) + 1)
         \<and> calls w' =
             calls w @ [sp_track_error (sp_track self),
                        sp_track_get_playable (sp_session s) (sp_track self),
                        sp_track_add_ref (sp_track t)]"
proof -
  let ?p = "track_playable (lib w) (sp_session s) (sp_track self)"
  let ?w2 = "call (call w (sp_track_error (sp_track self)))
                  (sp_track_get_playable (sp_session s) (sp_track self))"
  obtain t w' where tw: "Track_init ?w2 ?p True = (t, w')"
    by (cases "Track_init ?w2 ?p True")
  have run: "playable w self = (Inr t, w')"
    using sess ok tw by (simp add: playable_def gate_defs)
  have t: "t = \<lparr>track_id = next_id w, sp_track = ?p\<rparr>"
    using tw by (simp add: Track_init_True call_def)
  have fin: "finalizers w' = (next_id w, ?p) # finalizers w"
    using tw by (auto simp: Track_init_True call_def)
  have nid: "next_id w' = next_id w + 1"
    using tw by (auto simp: Track_init_True call_def)
  have lt: "track_id self < next_id w"
    using wf al by (rule alive_lt)
  have ne: "track_id t \<noteq> track_id self"
    using lt t by simp
  then have ne': "t \<noteq> self"
    by auto
  have wf': "wf_world w'"
    using wf fin nid by (rule wf_world_register)
  have a1: "alive w' t"
    by (simp add: alive_def fin t)
  have a2: "alive w' self"
    using al by (simp add: alive_def fin)
  have rc: "refcount w' = (refcount w)(sp_track t := refcount w (sp_track t) + 1)"
    using tw by (auto simp: Track_init_True call_def t)
  have cs: "calls w' = calls w @ [sp_track_error (sp_track self),
                                  sp_track_get_playable (sp_session s) (sp_track self),
                                  sp_track_add_ref (sp_track t)]"
    using tw by (auto simp: Track_init_True call_def t)
  have pt: "sp_track t = ?p"
    by (simp add: t)
  from run tw pt ne ne' a1 a2 wf' rc cs show ?thesis
    by blast
qed

theorem playable_returns_fresh_wrapper_witness:
  "wf_world demo_world \<and> alive demo_world loaded_track \<and> alive demo_world popular_track
   \<and> fst (playable demo_world loaded_track) = Inr \<lparr>track_id = 4, sp_track = 8\<rparr>
   \<and> refcount (snd (playable demo_world loaded_track)) 8 = 2
   \<and> calls (snd (playable demo_world loaded_track)) =
       [sp_track_error 7, sp_track_get_playable 1 7, sp_track_add_ref 8]
   \<and> fst (playable demo_world popular_track) = Inr \<lparr>track_id = 4, sp_track = 8\<rparr>
   \<and> fst (playable demo_world popular_track) \<noteq> Inr popular_track"
proof -
  have wf: "wf_world demo_world"
    by (simp add: wf_world_def demo_defs)
  have a1: "alive demo_world loaded_track"
    by (simp add: alive_def demo_defs)
  have a2: "alive demo_world popular_track"
    by (simp add: alive_def demo_defs)
  have s: "session_instance demo_world = Some (Session 1)"
    by (simp add: demo_defs)
  have e1: "track_error (lib demo_world) (sp_track loaded_track) = 0"
    by (simp add: demo_defs)
  have e2: "track_error (lib demo_world) (sp_track popular_track) = 0"
    by (simp add: demo_defs)
  show ?thesis
    using wf a1 a2
      playable_returns_fresh_wrapper [OF wf a1 s e1]
      playable_returns_fresh_wrapper [OF wf a2 s e2]
    by (simp add: playable_def gate_defs Track_init_True demo_defs)
qed

text \<open>
  C8. \<^verbatim>\<open>LocalTrack.__init__\<close> converts each of \<^verbatim>\<open>artist\<close>, \<^verbatim>\<open>title\<close> and
  \<^verbatim>\<open>album\<close> on its own: \<^verbatim>\<open>None\<close> becomes the native \<^verbatim>\<open>NULL\<close>, and a given value
  becomes a character array of the bytes \<^verbatim>\<open>to_bytes\<close> encodes it to. A \<^verbatim>\<open>None\<close> length
  reaches \<^verbatim>\<open>lib.sp_localtrack_create\<close> as \<open>- 1\<close> (not as 0), and a given length in the
  range of a C \<^verbatim>\<open>int\<close> reaches it as it is. The handle the creation call returns is
  wrapped by \<^verbatim>\<open>Track.__init__\<close> with \<^verbatim>\<open>add_ref=False\<close>: the trace holds the creation
  call and no \<^verbatim>\<open>lib.sp_track_add_ref\<close>, the only reference counted is the one the
  creation call vends, and the release destructor is registered once.
\<close>

theorem LocalTrack_init_adopts_created_handle:
  assumes a: "convert to_bytes artist = Inr a"
    and ti: "convert to_bytes title = Inr ti"
    and al: "convert to_bytes album_name = Inr al"
    and len: "len = None \<and> n = - 1 \<or> len = Some n \<and> - (2 ^ 31) \<le> n \<and> n < 2 ^ 31"
  shows "convert to_bytes None = Inr CNULL
       \<and> (\<forall>v b. to_bytes v = Inr b \<longrightarrow> convert to_bytes (Some v) = Inr (CharArray b))
       \<and> (artist = None \<longrightarrow> a = CNULL) \<and> (title = None \<longrightarrow> ti = CNULL)
       \<and> (album_name = None \<longrightarrow> al = CNULL)
       \<and> LocalTrack_init to_bytes w artist title album_name len =
           (case lib_sp_localtrack_create w a ti al n of
              (p, w1) \<Rightarrow> (case Track_init w1 p False of (t, w2) \<Rightarrow> (Inr t, w2)))
       \<and> fst (LocalTrack_init to_bytes w artist title album_name len) =
           Inr \<lparr>track_id = next_id w, sp_track = localtrack_new (lib w) a ti al n\<rparr>
       \<and> calls (snd (LocalTrack_init to_bytes w artist title album_name len)) =
           calls w @ [sp_localtrack_create a ti al n]
       \<and> refcount (snd (LocalTrack_init to_bytes w artist title album_name len)) =
           (refcount w)(localtrack_new (lib w) a ti al n :=
              refcount w (localtrack_new (lib w) a ti al n) + 1)
       \<and> finalizers (snd (LocalTrack_init to_bytes w artist title album_name len)) =
           (next_id w, localtrack_new (lib w) a ti al n) # finalizers w"
proof -
  have c1: "convert to_bytes None = Inr CNULL"
    by (simp add: convert_def)
  have c2: "\<forall>v b. to_bytes v = Inr b \<longrightarrow> convert to_bytes (Some v) = Inr (CharArray b)"
    by (simp add: convert_def)
  have c3: "artist = None \<longrightarrow> a = CNULL" "title = None \<longrightarrow> ti = CNULL"
    "album_name = None \<longrightarrow> al = CNULL"
    using a ti al by (auto simp: convert_def)
  have len': "(case len of None \<Rightarrow> - 1 | Some m \<Rightarrow> m) = n"
    using len by auto
  have rng: "\<not> (n < - (2 ^ 31) \<or> 2 ^ 31 \<le> n)"
    using len by auto
  have run: "LocalTrack_init to_bytes w artist title album_name len =
               (case lib_sp_localtrack_create w a ti al n of
                  (p, w1) \<Rightarrow> (case Track_init w1 p False of (t, w2) \<Rightarrow> (Inr t, w2)))"
    using rng by (simp add: LocalTrack_init_def a ti al len' Let_def)
  have res: "LocalTrack_init to_bytes w artist title album_name len =
      (Inr \<lparr>track_id = next_id w, sp_track = localtrack_new (lib w) a ti al n\<rparr>,
       w\<lparr>refcount := (refcount w)(localtrack_new (lib w) a ti al n :=
                        refcount w (localtrack_new (lib w) a ti al n) + 1),
         calls := calls w @ [sp_localtrack_create a ti al n],
         finalizers := (next_id w, localtrack_new (lib w) a ti al n) # finalizers w,
         next_id := next_id w + 1\<rparr>)"
    by (subst run) (simp add: lib_sp_localtrack_create_def Track_init_False call_def Let_def)
  have parts:
    "fst (LocalTrack_init to_bytes w artist title album_name len) =
       Inr \<lparr>track_id = next_id w, sp_track = localtrack_new (lib w) a ti al n\<rparr>"
    "calls (snd (LocalTrack_init to_bytes w artist title album_name len)) =
       calls w @ [sp_localtrack_create a ti al n]"
    "refcount (snd (LocalTrack_init to_bytes w artist title album_name len)) =
       (refcount w)(localtrack_new (lib w) a ti al n :=
          refcount w (localtrack_new (lib w) a ti al n) + 1)"
    "finalizers (snd (LocalTrack_init to_bytes w artist title album_name len)) =
       (next_id w, localtrack_new (lib w) a ti al n) # finalizers w"
    by (simp_all add: res)
  from c1 c2 c3 run parts show ?thesis
    by blast
qed

theorem LocalTrack_init_adopts_created_handle_witness:
  "convert demo_to_bytes (Some ''A'') = Inr (CharArray ''A'')
   \<and> convert demo_to_bytes (None :: string option) = Inr CNULL
   \<and> fst (LocalTrack_init demo_to_bytes demo_world (Some ''A'') None (Some ''Alb'') None) =
       Inr \<lparr>track_id = 4, sp_track = 11\<rparr>
   \<and> calls (snd (LocalTrack_init demo_to_bytes demo_world (Some ''A'') None (Some ''Alb'') None)) =
       [sp_localtrack_create (CharArray ''A'') CNULL (CharArray ''Alb'') (- 1)]
   \<and> calls (snd (LocalTrack_init demo_to_bytes demo_world None (Some ''T'') None (Some 0))) =
       [sp_localtrack_create CNULL (CharArray ''T'') CNULL 0]
   \<and> refcount (snd (LocalTrack_init demo_to_bytes demo_world (Some ''A'') None (Some ''Alb'') None)) 11 = 2"
proof -
  have a: "convert demo_to_bytes (Some ''A'') = Inr (CharArray ''A'')"
    by (simp add: convert_def demo_to_bytes_def)
  have t: "convert demo_to_bytes (Some ''T'') = Inr (CharArray ''T'')"
    by (simp add: convert_def demo_to_bytes_def)
  have al: "convert demo_to_bytes (Some ''Alb'') = Inr (CharArray ''Alb'')"
    by (simp add: convert_def demo_to_bytes_def)
  have no: "convert demo_to_bytes (None :: string option) = Inr CNULL"
    by (simp add: convert_def)
  have l1: "(None :: int option) = None \<and> (- 1 :: int) = - 1
            \<or> (None :: int option) = Some (- 1) \<and> - (2 ^ 31) \<le> (- 1 :: int) \<and> (- 1 :: int) < 2 ^ 31"
    by simp
  have l2: "Some (0 :: int) = None \<and> (0 :: int) = - 1
            \<or> Some (0 :: int) = Some 0 \<and> - (2 ^ 31) \<le> (0 :: int) \<and> (0 :: int) < 2 ^ 31"
    by simp
  have n: "next_id demo_world = 4" "calls demo_world = []" "refcount demo_world 11 = 1"
    "localtrack_new (lib demo_world) = (\<lambda>artist title album len. 11)"
    by (simp_all add: demo_defs)
  show ?thesis
    using a no
      LocalTrack_init_adopts_created_handle [OF a no al l1, of demo_world]
      LocalTrack_init_adopts_created_handle [OF no t no l2, of demo_world]
    by (simp add: n lib_sp_localtrack_create_def Track_init_False call_def Let_def)
qed

end
